theory Spec2Isabelle
  imports Complex_Main "HOL-Library.Word"
begin

section \<open>PlanetariumWarper: the Program class of Program.cpp\<close>

text \<open>
  Program.cpp is a thin sequence of calls into OpenGL, GLEW and two collaborators
  (the shader wrapper and the input snapshot). The only state of its own is the
  boolean \<open>m_exit\<close>. The embedding keeps that state in a record and records every
  call that leaves the file, in the order in which it is issued, in the field
  \<open>issued\<close>; a property about the order or the number of graphics operations is a
  property of that sequence.
\<close>

subsection \<open>Scalar types and constants\<close>

type_synonym GLenum = "32 word"
type_synonym GLuint = "32 word"
type_synonym GLsizei = "32 word"
type_synonym GLfloat = real
type_synonym pointer = "64 word"

text \<open>
  The float literals of the file are \<open>0.0f\<close>, \<open>1.0f\<close> and \<open>-1.0f\<close>. They are exact in
  binary32 and no arithmetic is done on them, so they are written as the reals
  \<open>0\<close>, \<open>1\<close> and \<open>-1\<close>.
\<close>

definition WINDOW_WIDTH :: int where
  "WINDOW_WIDTH = 512"

definition WINDOW_HEIGHT :: int where
  "WINDOW_HEIGHT = 512"

text \<open>The symbolic constants of \<open>GL/glew.h\<close> that the file passes on.\<close>

datatype gl_const =
    GL_DEBUG_OUTPUT_SYNCHRONOUS
  | GL_DONT_CARE
  | GL_VERTEX_SHADER
  | GL_FRAGMENT_SHADER
  | GL_FLOAT
  | GL_TRIANGLE_STRIP
  | GL_COLOR_BUFFER_BIT

subsection \<open>Collaborators declared outside Program.cpp\<close>

text \<open>
  Modelled from the spec: the enum \<open>InputKey\<close> and the class \<open>InputState\<close> of
  InputState.h, which is not among the sources. The spec says that \<open>Update\<close> consumes a
  capability "is this named key currently pressed", queried for one key, escape, and
  that the snapshot is queried, never mutated. Every key other than escape is
  \<open>OTHER_KEY\<close> with its code.
\<close>

datatype InputKey = ESCAPE | OTHER_KEY nat

record InputState =
  pressed :: "InputKey \<Rightarrow> bool"

definition IsKeyPressed :: "InputState \<Rightarrow> InputKey \<Rightarrow> bool" where
  "IsKeyPressed inputState key = pressed inputState key"

text \<open>
  Modelled from the spec: the class \<open>ProgramConfiguration\<close> of ProgramConfiguration.h,
  which is not among the sources: "a passive configuration record (title, window
  width/height, GL version)". Each setter stores its argument in its own field and
  leaves every other field, also one the header may declare beyond these five, as it
  is; hence the setters are stated on the extensible record.
\<close>

record ProgramConfiguration =
  title :: string
  windowWidth :: int
  windowHeight :: int
  glMajorVersion :: int
  glMinorVersion :: int

definition SetTitle ::
  "string \<Rightarrow> 'a ProgramConfiguration_scheme \<Rightarrow> 'a ProgramConfiguration_scheme" where
  "SetTitle t config = config\<lparr>title := t\<rparr>"

definition SetWindowWidth ::
  "int \<Rightarrow> 'a ProgramConfiguration_scheme \<Rightarrow> 'a ProgramConfiguration_scheme" where
  "SetWindowWidth w config = config\<lparr>windowWidth := w\<rparr>"

definition SetWindowHeight ::
  "int \<Rightarrow> 'a ProgramConfiguration_scheme \<Rightarrow> 'a ProgramConfiguration_scheme" where
  "SetWindowHeight h config = config\<lparr>windowHeight := h\<rparr>"

definition SetGLMajorVersion ::
  "int \<Rightarrow> 'a ProgramConfiguration_scheme \<Rightarrow> 'a ProgramConfiguration_scheme" where
  "SetGLMajorVersion v config = config\<lparr>glMajorVersion := v\<rparr>"

definition SetGLMinorVersion ::
  "int \<Rightarrow> 'a ProgramConfiguration_scheme \<Rightarrow> 'a ProgramConfiguration_scheme" where
  "SetGLMinorVersion v config = config\<lparr>glMinorVersion := v\<rparr>"

text \<open>
  Modelled from the spec: the shader wrapper held in \<open>m_shader\<close>, whose class is not
  among the sources: it "compiles and links GPU shader stages and exposes
  enable/disable and a program handle". Only the handle is represented; every method
  that Program.cpp calls on the wrapper is recorded as a call of its own.
\<close>

record Shader =
  program_handle :: GLuint

subsection \<open>Calls that leave the file\<close>

datatype callback = FN_ETB_GL_ERROR_CALLBACK

datatype call =
    Set_glewExperimental bool
  | GlewInit
  | GlEnable gl_const
  | GlDebugMessageControl gl_const gl_const gl_const int "GLuint list option" bool
  | GlDebugMessageCallback callback "pointer option"
  | Shader_LoadShader string gl_const
  | Shader_GetProgramHandle
  | GlBindAttribLocation GLuint GLuint string
  | Shader_Link
  | GlViewport int int int int
  | GlClearColor GLfloat GLfloat GLfloat GLfloat
  | GlColorMask bool bool bool bool
  | GlClear gl_const
  | Shader_Enable
  | GlVertexAttribPointer GLuint int gl_const bool int "GLfloat list"
  | GlEnableVertexAttribArray GLuint
  | GlDrawArrays gl_const int int
  | Shader_Disable
  | GlUseProgram GLuint

subsection \<open>The Program object\<close>

record Program =
  m_exit :: bool
  m_shader :: Shader
  issued :: "call list"

definition do_call :: "call \<Rightarrow> Program \<Rightarrow> Program" where
  "do_call c p = p\<lparr>issued := issued p @ [c]\<rparr>"

text \<open>
  The constructor initialises \<open>m_exit\<close> to false and default-constructs the wrapper.
  What the wrapper's constructor yields, and what had been issued before, are
  parameters.
\<close>

definition Program_ctor :: "Shader \<Rightarrow> call list \<Rightarrow> Program" where
  "Program_ctor sh earlier = \<lparr>m_exit = False, m_shader = sh, issued = earlier\<rparr>"

definition Initialize ::
  "'a ProgramConfiguration_scheme \<Rightarrow> Program \<Rightarrow> 'a ProgramConfiguration_scheme \<times> Program" where
  "Initialize config p =
     (let c1 = SetTitle ''Planetarium Warper'' config;
          c2 = SetWindowWidth WINDOW_WIDTH c1;
          c3 = SetWindowHeight WINDOW_HEIGHT c2;
          c4 = SetGLMajorVersion 2 c3;
          c5 = SetGLMinorVersion 0 c4
      in (c5, p))"

definition Load :: "Program \<Rightarrow> Program" where
  "Load p =
     (let p1 = do_call (Set_glewExperimental True) p;
          p2 = do_call GlewInit p1;
          p3 = do_call (GlEnable GL_DEBUG_OUTPUT_SYNCHRONOUS) p2;
          p4 = do_call (GlDebugMessageControl GL_DONT_CARE GL_DONT_CARE GL_DONT_CARE 0 None True) p3;
          p5 = do_call (GlDebugMessageCallback FN_ETB_GL_ERROR_CALLBACK None) p4;
          p6 = do_call (Shader_LoadShader ''FullscreenQuad.vert'' GL_VERTEX_SHADER) p5;
          p7 = do_call (Shader_LoadShader ''FullscreenQuad.frag'' GL_FRAGMENT_SHADER) p6;
          p8 = do_call Shader_GetProgramHandle p7;
          prog = program_handle (m_shader p8);
          p9 = do_call (GlBindAttribLocation prog 0 ''vPosition'') p8
      in do_call Shader_Link p9)"

definition Unload :: "Program \<Rightarrow> Program" where
  "Unload p = do_call (GlUseProgram 0) p"

definition Exit :: "Program \<Rightarrow> Program" where
  "Exit p = Unload (p\<lparr>m_exit := True\<rparr>)"

definition Update :: "InputState \<Rightarrow> Program \<Rightarrow> Program" where
  "Update inputState p = (if IsKeyPressed inputState ESCAPE then Exit p else p)"

definition quad :: "GLfloat list" where
  "quad = [-1, 1,
           -1, -1,
           1, 1,
           1, -1]"

definition Draw :: "Program \<Rightarrow> Program" where
  "Draw p =
     (let p1 = do_call (GlViewport 0 0 WINDOW_WIDTH WINDOW_HEIGHT) p;
          p2 = do_call (GlClearColor 0 0 0 1) p1;
          p3 = do_call (GlColorMask True True True False) p2;
          p4 = do_call (GlClear GL_COLOR_BUFFER_BIT) p3;
          p5 = do_call Shader_Enable p4;
          p6 = do_call (GlVertexAttribPointer 0 2 GL_FLOAT False 0 quad) p5;
          p7 = do_call (GlEnableVertexAttribArray 0) p6;
          p8 = do_call (GlDrawArrays GL_TRIANGLE_STRIP 0 4) p7
      in do_call Shader_Disable p8)"

text \<open>
  \<open>ReadyToExit\<close> is a \<open>const\<close> member function: it returns the flag, and the object
  after the call is the object before it.
\<close>

definition ReadyToExit :: "Program \<Rightarrow> bool \<times> Program" where
  "ReadyToExit p = (m_exit p, p)"

subsection \<open>The debug callback\<close>

text \<open>
  \<open>message\<close> is a C string: the characters at the pointer, of which \<open>operator<<\<close>
  writes those before the first NUL. Standard output is the sequence of characters
  written so far; \<open>std::endl\<close> appends a newline (and flushes, which does not change
  what has been written).
\<close>

definition c_str :: "string \<Rightarrow> string" where
  "c_str buf = takeWhile (\<lambda>c. c \<noteq> CHR 0x00) buf"

definition endl :: string where
  "endl = [CHR 0x0A]"

definition ETB_GL_ERROR_CALLBACK ::
  "GLenum \<Rightarrow> GLenum \<Rightarrow> GLuint \<Rightarrow> GLenum \<Rightarrow> GLsizei \<Rightarrow> string \<Rightarrow> pointer \<Rightarrow> string \<Rightarrow> string" where
  "ETB_GL_ERROR_CALLBACK source ty msg_id severity len message userParam cout =
     cout @ c_str message @ endl"

subsection \<open>Reading the issued sequence\<close>

text \<open>The calls that one operation adds to the sequence.\<close>

definition emitted :: "(Program \<Rightarrow> Program) \<Rightarrow> Program \<Rightarrow> call list" where
  "emitted f p = drop (length (issued p)) (issued (f p))"

text \<open>\<open>in_order xs cs\<close>: the calls \<open>xs\<close> occur in \<open>cs\<close>, one after the other, in this order.\<close>

fun in_order :: "call list \<Rightarrow> call list \<Rightarrow> bool" where
  "in_order [] cs = True"
| "in_order (x # xs) [] = False"
| "in_order (x # xs) (c # cs) = (if x = c then in_order xs cs else in_order (x # xs) cs)"

fun is_clear :: "call \<Rightarrow> bool" where
  "is_clear (GlClear bits) = True"
| "is_clear _ = False"

fun is_draw :: "call \<Rightarrow> bool" where
  "is_draw (GlDrawArrays mode start cnt) = True"
| "is_draw _ = False"

text \<open>
  What a draw submits. \<open>glVertexAttribPointer(index, size, GL_FLOAT, normalized, stride,
  pointer)\<close> makes attribute \<open>index\<close> read \<open>size\<close> floats per vertex at \<open>pointer\<close>, consecutive
  vertices \<open>stride\<close> bytes apart, and tightly packed when \<open>stride\<close> is 0;
  \<open>glDrawArrays(mode, first, count)\<close> submits the vertices \<open>first\<close>, ..., \<open>first + count - 1\<close>.
  \<open>submissions\<close> follows attribute 0, the slot that \<open>Load\<close> binds to \<open>vPosition\<close>, and
  lists for every draw of the sequence its primitive mode and the positions it reads.
\<close>

definition fetch_vertex :: "int \<Rightarrow> int \<Rightarrow> GLfloat list \<Rightarrow> nat \<Rightarrow> GLfloat list" where
  "fetch_vertex components stride floats i =
     (let step = (if stride = 0 then nat components else nat stride div 4)
      in take (nat components) (drop (i * step) floats))"

fun submissions ::
  "(int \<times> int \<times> GLfloat list) option \<Rightarrow> call list \<Rightarrow> (gl_const \<times> GLfloat list list) list" where
  "submissions b [] = []"
| "submissions b (GlVertexAttribPointer slot components ty normalized stride floats # cs) =
     submissions (if slot = 0 then Some (components, stride, floats) else b) cs"
| "submissions b (GlDrawArrays mode start cnt # cs) =
     (mode, case b of
              None \<Rightarrow> []
            | Some (components, stride, floats) \<Rightarrow>
                map (fetch_vertex components stride floats) [nat start ..< nat start + nat cnt])
     # submissions b cs"
| "submissions b (c # cs) = submissions b cs"

text \<open>
  What a clear writes. These are the semantics of three OpenGL commands as the OpenGL
  specification gives them, not code of this repository: \<open>glClearColor\<close> stores the
  clamped clear colour, \<open>glColorMask\<close> stores the write mask of the four channels, and
  \<open>glClear(GL_COLOR_BUFFER_BIT)\<close> writes to each pixel the channels of the clear colour
  whose mask is on and leaves the others as they are. No other call of Program.cpp
  changes the clear colour or the mask.
\<close>

type_synonym rgba = "GLfloat \<times> GLfloat \<times> GLfloat \<times> GLfloat"

record gl_context =
  clear_color :: rgba
  color_mask :: "bool \<times> bool \<times> bool \<times> bool"

definition clamp01 :: "GLfloat \<Rightarrow> GLfloat" where
  "clamp01 x = max 0 (min 1 x)"

fun context_after :: "gl_context \<Rightarrow> call list \<Rightarrow> gl_context" where
  "context_after ctx [] = ctx"
| "context_after ctx (GlClearColor r g b a # cs) =
     context_after (ctx\<lparr>clear_color := (clamp01 r, clamp01 g, clamp01 b, clamp01 a)\<rparr>) cs"
| "context_after ctx (GlColorMask r g b a # cs) =
     context_after (ctx\<lparr>color_mask := (r, g, b, a)\<rparr>) cs"
| "context_after ctx (c # cs) = context_after ctx cs"

definition clear_pixel :: "gl_context \<Rightarrow> rgba \<Rightarrow> rgba" where
  "clear_pixel ctx px =
     (case clear_color ctx of (cr, cg, cb, ca) \<Rightarrow>
      case color_mask ctx of (mr, mg, mb, ma) \<Rightarrow>
      case px of (r, g, b, a) \<Rightarrow>
        (if mr then cr else r, if mg then cg else g, if mb then cb else b, if ma then ca else a))"

subsection \<open>Sequences of operations\<close>

datatype operation =
    Op_Initialize ProgramConfiguration
  | Op_Load
  | Op_Update InputState
  | Op_Draw
  | Op_ReadyToExit
  | Op_Exit
  | Op_Unload

fun perform :: "operation \<Rightarrow> Program \<Rightarrow> Program" where
  "perform (Op_Initialize config) p = snd (Initialize config p)"
| "perform Op_Load p = Load p"
| "perform (Op_Update inputState) p = Update inputState p"
| "perform Op_Draw p = Draw p"
| "perform Op_ReadyToExit p = snd (ReadyToExit p)"
| "perform Op_Exit p = Exit p"
| "perform Op_Unload p = Unload p"

text \<open>The states a Program goes through, the first one included.\<close>

fun trajectory :: "Program \<Rightarrow> operation list \<Rightarrow> Program list" where
  "trajectory p [] = [p]"
| "trajectory p (x # xs) = p # trajectory (perform x p) xs"

text \<open>How often a sequence of flag values goes from false to true, and from true to false.\<close>

fun rises :: "bool list \<Rightarrow> nat" where
  "rises (a # b # bs) = (if \<not> a \<and> b then 1 else 0) + rises (b # bs)"
| "rises bs = 0"

fun falls :: "bool list \<Rightarrow> nat" where
  "falls (a # b # bs) = (if a \<and> \<not> b then 1 else 0) + falls (b # bs)"
| "falls bs = 0"

section \<open>Properties\<close>

subsection \<open>Shared facts\<close>

lemma do_call_fields:
  "m_exit (do_call c p) = m_exit p"
  "m_shader (do_call c p) = m_shader p"
  "issued (do_call c p) = issued p @ [c]"
  by (simp_all add: do_call_def)

lemma Exit_fields:
  "m_exit (Exit p) = True"
  "m_shader (Exit p) = m_shader p"
  "issued (Exit p) = issued p @ [GlUseProgram 0]"
  by (simp_all add: Exit_def Unload_def do_call_fields)

lemma Draw_fields:
  "m_exit (Draw p) = m_exit p"
  "m_shader (Draw p) = m_shader p"
  by (simp_all add: Draw_def Let_def do_call_fields)

lemma Load_fields:
  "m_exit (Load p) = m_exit p"
  "m_shader (Load p) = m_shader p"
  by (simp_all add: Load_def Let_def do_call_fields)

lemma issued_Draw:
  "issued (Draw p) = issued p @
     [GlViewport 0 0 512 512,
      GlClearColor 0 0 0 1,
      GlColorMask True True True False,
      GlClear GL_COLOR_BUFFER_BIT,
      Shader_Enable,
      GlVertexAttribPointer 0 2 GL_FLOAT False 0 quad,
      GlEnableVertexAttribArray 0,
      GlDrawArrays GL_TRIANGLE_STRIP 0 4,
      Shader_Disable]"
  by (simp add: Draw_def Let_def do_call_fields WINDOW_WIDTH_def WINDOW_HEIGHT_def)

lemma emitted_Draw:
  "emitted Draw p =
     [GlViewport 0 0 512 512,
      GlClearColor 0 0 0 1,
      GlColorMask True True True False,
      GlClear GL_COLOR_BUFFER_BIT,
      Shader_Enable,
      GlVertexAttribPointer 0 2 GL_FLOAT False 0 quad,
      GlEnableVertexAttribArray 0,
      GlDrawArrays GL_TRIANGLE_STRIP 0 4,
      Shader_Disable]"
  by (simp add: emitted_def issued_Draw)

lemma emitted_Load:
  "emitted Load p =
     [Set_glewExperimental True,
      GlewInit,
      GlEnable GL_DEBUG_OUTPUT_SYNCHRONOUS,
      GlDebugMessageControl GL_DONT_CARE GL_DONT_CARE GL_DONT_CARE 0 None True,
      GlDebugMessageCallback FN_ETB_GL_ERROR_CALLBACK None,
      Shader_LoadShader ''FullscreenQuad.vert'' GL_VERTEX_SHADER,
      Shader_LoadShader ''FullscreenQuad.frag'' GL_FRAGMENT_SHADER,
      Shader_GetProgramHandle,
      GlBindAttribLocation (program_handle (m_shader p)) 0 ''vPosition'',
      Shader_Link]"
  by (simp add: emitted_def Load_def Let_def do_call_fields)

lemma Initialize_unfold:
  "Initialize config p =
     (config\<lparr>title := ''Planetarium Warper'', windowWidth := 512, windowHeight := 512,
             glMajorVersion := 2, glMinorVersion := 0\<rparr>, p)"
  by (simp add: Initialize_def Let_def SetTitle_def SetWindowWidth_def SetWindowHeight_def
      SetGLMajorVersion_def SetGLMinorVersion_def WINDOW_WIDTH_def WINDOW_HEIGHT_def)

lemma perform_keeps_exit: "m_exit p \<Longrightarrow> m_exit (perform x p)"
  by (cases x)
     (simp_all add: Initialize_def Let_def Load_fields Draw_fields Update_def Exit_fields
        ReadyToExit_def Unload_def do_call_fields)

lemma trajectory_exited:
  "m_exit p \<Longrightarrow>
     rises (map m_exit (trajectory p ops)) = 0
     \<and> falls (map m_exit (trajectory p ops)) = 0
     \<and> m_exit (last (trajectory p ops))"
proof (induction ops arbitrary: p)
  case Nil
  then show ?case by simp
next
  case (Cons x xs)
  from Cons.prems have e: "m_exit (perform x p)"
    by (rule perform_keeps_exit)
  from Cons.IH [OF e] Cons.prems e show ?case
    by (cases xs) simp_all
qed

lemma trajectory_monotone:
  "rises (map m_exit (trajectory p ops)) \<le> 1 \<and> falls (map m_exit (trajectory p ops)) = 0"
proof (induction ops arbitrary: p)
  case Nil
  show ?case by simp
next
  case (Cons x xs)
  show ?case
  proof (cases "m_exit (perform x p)")
    case True
    from trajectory_exited [OF True, of xs] True show ?thesis
      by (cases xs) simp_all
  next
    case False
    then have "\<not> m_exit p"
      using perform_keeps_exit by blast
    with Cons.IH [of "perform x p"] False show ?thesis
      by (cases xs) simp_all
  qed
qed

subsection \<open>The exit flag\<close>

text \<open>
  C8. Immediately after a Program is constructed, and before any other operation is
  called on it, \<open>ReadyToExit()\<close> returns false: whatever the wrapper's constructor
  yields and whatever had been issued before.
\<close>

theorem C8_fresh_program_not_ready: "fst (ReadyToExit (Program_ctor sh earlier)) = False"
  by (simp add: ReadyToExit_def Program_ctor_def)

theorem C8_fresh_program_not_ready_witness:
  "fst (ReadyToExit (Program_ctor \<lparr>program_handle = 3\<rparr> [])) = False"
  by (rule C8_fresh_program_not_ready [of "\<lparr>program_handle = 3\<rparr>" "[]"])

text \<open>
  C1. For every input state and every prior value of the exit flag, after
  \<open>Update(inputState)\<close> the value returned by \<open>ReadyToExit()\<close> is true if and only if
  the escape key is reported pressed in \<open>inputState\<close> or the flag was already true
  before the call. In particular, \<open>Update\<close> with escape pressed makes it true, and
  \<open>Update\<close> with escape not pressed leaves a false flag false.
\<close>

theorem C1_update_ready_iff:
  "fst (ReadyToExit (Update inputState p)) = (IsKeyPressed inputState ESCAPE \<or> m_exit p)"
  by (simp add: ReadyToExit_def Update_def Exit_fields)

text \<open>
  At a fresh Program: escape pressed gives true; only another key pressed leaves the
  flag false.
\<close>

theorem C1_update_ready_iff_witness:
  "fst (ReadyToExit (Update \<lparr>pressed = (\<lambda>k. k = ESCAPE)\<rparr>
                       (Program_ctor \<lparr>program_handle = 3\<rparr> []))) = True
   \<and> fst (ReadyToExit (Update \<lparr>pressed = (\<lambda>k. k = OTHER_KEY 65)\<rparr>
                         (Program_ctor \<lparr>program_handle = 3\<rparr> []))) = False"
  using C1_update_ready_iff [of "\<lparr>pressed = (\<lambda>k. k = ESCAPE)\<rparr>"
          "Program_ctor \<lparr>program_handle = 3\<rparr> []"]
        C1_update_ready_iff [of "\<lparr>pressed = (\<lambda>k. k = OTHER_KEY 65)\<rparr>"
          "Program_ctor \<lparr>program_handle = 3\<rparr> []"]
  by (simp add: IsKeyPressed_def Program_ctor_def)

text \<open>
  C9. \<open>ReadyToExit()\<close> is a pure query: it returns the current value of the exit flag
  and leaves the Program unchanged, so two consecutive calls return the same value and
  the state after them is the state before.
\<close>

theorem C9_ready_to_exit_pure:
  "fst (ReadyToExit p) = m_exit p
   \<and> snd (ReadyToExit p) = p
   \<and> fst (ReadyToExit (snd (ReadyToExit p))) = fst (ReadyToExit p)
   \<and> snd (ReadyToExit (snd (ReadyToExit p))) = p"
  by (simp add: ReadyToExit_def)

theorem C9_ready_to_exit_pure_witness:
  "fst (ReadyToExit (Exit (Program_ctor \<lparr>program_handle = 3\<rparr> []))) = True
   \<and> snd (ReadyToExit (Exit (Program_ctor \<lparr>program_handle = 3\<rparr> [])))
       = Exit (Program_ctor \<lparr>program_handle = 3\<rparr> [])"
  using C9_ready_to_exit_pure [of "Exit (Program_ctor \<lparr>program_handle = 3\<rparr> [])"]
  by (simp add: Exit_fields)

text \<open>
  C5. The exit flag is monotone. It starts false. Along every sequence of operations
  (Initialize, Load, Update, Draw, ReadyToExit, Exit, Unload), from every state, it goes
  from false to true at most once and never from true to false; so once it is true it
  is true after the whole sequence.
\<close>

theorem C5_exit_flag_monotone:
  "m_exit (Program_ctor sh earlier) = False
   \<and> rises (map m_exit (trajectory p ops)) \<le> 1
   \<and> falls (map m_exit (trajectory p ops)) = 0
   \<and> (m_exit p \<longrightarrow> m_exit (last (trajectory p ops)))"
  using trajectory_monotone [of p ops] trajectory_exited [of p ops]
  by (simp add: Program_ctor_def)

text \<open>
  A Program that has exited stays so through Load, a frame in which escape is not
  pressed, Unload and a query.
\<close>

theorem C5_exit_flag_monotone_witness:
  "m_exit (Exit (Program_ctor \<lparr>program_handle = 3\<rparr> []))
   \<and> m_exit (last (trajectory (Exit (Program_ctor \<lparr>program_handle = 3\<rparr> []))
        [Op_Load, Op_Update \<lparr>pressed = (\<lambda>k. False)\<rparr>, Op_Draw, Op_Unload, Op_ReadyToExit]))"
  using C5_exit_flag_monotone [of "\<lparr>program_handle = 3\<rparr>" "[]"
          "Exit (Program_ctor \<lparr>program_handle = 3\<rparr> [])"
          "[Op_Load, Op_Update \<lparr>pressed = (\<lambda>k. False)\<rparr>, Op_Draw, Op_Unload, Op_ReadyToExit]"]
  by (simp add: Exit_fields)

text \<open>
  C6. \<open>Exit()\<close> sets the exit flag to true and then calls \<open>Unload()\<close>, which issues
  \<open>glUseProgram(0)\<close>. No operation of the file has an error path, so a second \<open>Exit()\<close>
  runs like the first: \<open>ReadyToExit()\<close> returns true after it, and the flag and the
  wrapper are what they were after the first call; only one more \<open>glUseProgram(0)\<close>
  has been issued.
\<close>

theorem C6_exit_twice:
  "Exit p = Unload (p\<lparr>m_exit := True\<rparr>)
   \<and> issued (Exit p) = issued p @ [GlUseProgram 0]
   \<and> fst (ReadyToExit (Exit p)) = True
   \<and> fst (ReadyToExit (Exit (Exit p))) = True
   \<and> m_exit (Exit (Exit p)) = m_exit (Exit p)
   \<and> m_shader (Exit (Exit p)) = m_shader (Exit p)
   \<and> issued (Exit (Exit p)) = issued p @ [GlUseProgram 0, GlUseProgram 0]"
  by (simp add: Exit_fields ReadyToExit_def) (simp add: Exit_def)

theorem C6_exit_twice_witness:
  "fst (ReadyToExit (Exit (Exit (Program_ctor \<lparr>program_handle = 3\<rparr> [])))) = True
   \<and> issued (Exit (Exit (Program_ctor \<lparr>program_handle = 3\<rparr> [])))
       = [GlUseProgram 0, GlUseProgram 0]"
  using C6_exit_twice [of "Program_ctor \<lparr>program_handle = 3\<rparr> []", THEN conjunct2]
  by (simp add: Program_ctor_def)

subsection \<open>Initialize\<close>

text \<open>
  C2. For every configuration record, whatever it held before, after
  \<open>Initialize(config)\<close> the record passed holds title = "Planetarium Warper", window
  width = 512, window height = 512, GL major version = 2 and GL minor version = 0, and
  nothing else of it has changed; the Program is as it was. The reference parameter
  is the first component of the result: the updated record takes the place of the one
  passed.
\<close>

theorem C2_initialize_constants:
  "title (fst (Initialize config p)) = ''Planetarium Warper''
   \<and> windowWidth (fst (Initialize config p)) = 512
   \<and> windowHeight (fst (Initialize config p)) = 512
   \<and> glMajorVersion (fst (Initialize config p)) = 2
   \<and> glMinorVersion (fst (Initialize config p)) = 0
   \<and> ProgramConfiguration.more (fst (Initialize config p)) = ProgramConfiguration.more config
   \<and> fst (Initialize (plain :: ProgramConfiguration) p) =
        \<lparr>title = ''Planetarium Warper'', windowWidth = 512, windowHeight = 512,
         glMajorVersion = 2, glMinorVersion = 0\<rparr>
   \<and> snd (Initialize config p) = p"
  by (simp add: Initialize_unfold)

theorem C2_initialize_constants_witness:
  "fst (Initialize \<lparr>title = ''untitled'', windowWidth = -1, windowHeight = 1080,
                    glMajorVersion = 4, glMinorVersion = 6\<rparr>
         (Program_ctor \<lparr>program_handle = 3\<rparr> []))
     = \<lparr>title = ''Planetarium Warper'', windowWidth = 512, windowHeight = 512,
        glMajorVersion = 2, glMinorVersion = 0\<rparr>"
  using C2_initialize_constants [of
          "\<lparr>title = ''untitled'', windowWidth = -1, windowHeight = 1080,
            glMajorVersion = 4, glMinorVersion = 6\<rparr>"
          "Program_ctor \<lparr>program_handle = 3\<rparr> []"
          "\<lparr>title = ''untitled'', windowWidth = -1, windowHeight = 1080,
            glMajorVersion = 4, glMinorVersion = 6\<rparr>"]
  by simp

subsection \<open>Draw\<close>

text \<open>
  C3, as the code has it. Every call to \<open>Draw()\<close> issues exactly these operations, in
  this order: set the viewport to the fixed window size, set the clear colour to opaque
  black, disable writes to the alpha channel, clear the colour buffer, enable the shader
  program, bind the quad geometry to attribute 0 and enable that attribute array, issue
  the 4-vertex triangle-strip draw, disable the program. In particular the disabling of
  alpha-channel writes precedes the clear, and the program is enabled before the
  geometry is bound.
\<close>

theorem C3_draw_order:
  "issued (Draw p) = issued p @ emitted Draw p
   \<and> emitted Draw p =
       [GlViewport 0 0 WINDOW_WIDTH WINDOW_HEIGHT,
        GlClearColor 0 0 0 1,
        GlColorMask True True True False,
        GlClear GL_COLOR_BUFFER_BIT,
        Shader_Enable,
        GlVertexAttribPointer 0 2 GL_FLOAT False 0 quad,
        GlEnableVertexAttribArray 0,
        GlDrawArrays GL_TRIANGLE_STRIP 0 4,
        Shader_Disable]
   \<and> in_order [GlColorMask True True True False, GlClear GL_COLOR_BUFFER_BIT] (emitted Draw p)
   \<and> in_order [Shader_Enable, GlVertexAttribPointer 0 2 GL_FLOAT False 0 quad] (emitted Draw p)"
  by (simp add: emitted_Draw issued_Draw WINDOW_WIDTH_def WINDOW_HEIGHT_def)

theorem C3_draw_order_witness:
  "issued (Draw (Program_ctor \<lparr>program_handle = 3\<rparr> [GlUseProgram 0])) =
       [GlUseProgram 0,
        GlViewport 0 0 512 512,
        GlClearColor 0 0 0 1,
        GlColorMask True True True False,
        GlClear GL_COLOR_BUFFER_BIT,
        Shader_Enable,
        GlVertexAttribPointer 0 2 GL_FLOAT False 0 [-1, 1, -1, -1, 1, 1, 1, -1],
        GlEnableVertexAttribArray 0,
        GlDrawArrays GL_TRIANGLE_STRIP 0 4,
        Shader_Disable]"
  using C3_draw_order [of "Program_ctor \<lparr>program_handle = 3\<rparr> [GlUseProgram 0]"]
  by (simp add: Program_ctor_def WINDOW_WIDTH_def WINDOW_HEIGHT_def quad_def)

text \<open>
  The order that C3 states does not occur. In the calls of one \<open>Draw()\<close> on a fresh
  Program, the seven operations do not follow one another as stated, whether "clear
  the color buffer to opaque black" is read as \<open>glClear\<close> or as \<open>glClearColor\<close>; the clear
  does not precede the colour mask; the binding of the geometry does not precede the
  enabling of the program.
\<close>

theorem C3_stated_order_counterexample:
  "\<not> in_order
       [GlViewport 0 0 512 512,
        GlClear GL_COLOR_BUFFER_BIT,
        GlColorMask True True True False,
        GlVertexAttribPointer 0 2 GL_FLOAT False 0 quad,
        Shader_Enable,
        GlDrawArrays GL_TRIANGLE_STRIP 0 4,
        Shader_Disable]
       (emitted Draw (Program_ctor \<lparr>program_handle = 3\<rparr> []))
   \<and> \<not> in_order
       [GlViewport 0 0 512 512,
        GlClearColor 0 0 0 1,
        GlColorMask True True True False,
        GlVertexAttribPointer 0 2 GL_FLOAT False 0 quad,
        Shader_Enable,
        GlDrawArrays GL_TRIANGLE_STRIP 0 4,
        Shader_Disable]
       (emitted Draw (Program_ctor \<lparr>program_handle = 3\<rparr> []))
   \<and> \<not> in_order [GlClear GL_COLOR_BUFFER_BIT, GlColorMask True True True False]
       (emitted Draw (Program_ctor \<lparr>program_handle = 3\<rparr> []))
   \<and> \<not> in_order [GlVertexAttribPointer 0 2 GL_FLOAT False 0 quad, Shader_Enable]
       (emitted Draw (Program_ctor \<lparr>program_handle = 3\<rparr> []))"
  by (simp add: emitted_Draw)

text \<open>
  C4. Every call to \<open>Draw()\<close> issues exactly one clear, of the colour buffer, and exactly
  one draw submission. Attribute 0 is bound, before the draw, to the array \<open>quad\<close> as
  2-component floats with zero stride, and the submission is a triangle strip of
  exactly 4 vertices, the corners (-1,1), (-1,-1), (1,1), (1,-1) of the clip-space
  square.
\<close>

theorem C4_one_clear_one_strip:
  "filter is_clear (emitted Draw p) = [GlClear GL_COLOR_BUFFER_BIT]
   \<and> length (filter is_clear (emitted Draw p)) = 1
   \<and> filter is_draw (emitted Draw p) = [GlDrawArrays GL_TRIANGLE_STRIP 0 4]
   \<and> length (filter is_draw (emitted Draw p)) = 1
   \<and> in_order [GlVertexAttribPointer 0 2 GL_FLOAT False 0 quad,
                GlDrawArrays GL_TRIANGLE_STRIP 0 4] (emitted Draw p)
   \<and> submissions None (emitted Draw p) =
       [(GL_TRIANGLE_STRIP, [[-1, 1], [-1, -1], [1, 1], [1, -1]])]"
  by (simp add: emitted_Draw fetch_vertex_def upt_conv_Cons quad_def)

theorem C4_one_clear_one_strip_witness:
  "length (filter is_clear (emitted Draw (Program_ctor \<lparr>program_handle = 3\<rparr> []))) = 1
   \<and> submissions None (emitted Draw (Program_ctor \<lparr>program_handle = 3\<rparr> [])) =
       [(GL_TRIANGLE_STRIP, [[-1, 1], [-1, -1], [1, 1], [1, -1]])]"
  using C4_one_clear_one_strip [of "Program_ctor \<lparr>program_handle = 3\<rparr> []"]
  by simp

text \<open>
  C10. In every \<open>Draw()\<close> call the colour mask that disables alpha-channel writes is
  issued before the clear. Whatever the context held when \<open>Draw()\<close> began, at the clear
  the mask is (true, true, true, false) and the clear colour is (0, 0, 0, 1), so the
  clear writes 0 to the red, green and blue channels of a pixel and leaves its alpha as
  it was, although the clear colour has alpha = 1.
\<close>

theorem C10_mask_before_clear:
  "in_order [GlColorMask True True True False, GlClear GL_COLOR_BUFFER_BIT] (emitted Draw p)
   \<and> color_mask (context_after ctx (takeWhile (\<lambda>c. \<not> is_clear c) (emitted Draw p)))
       = (True, True, True, False)
   \<and> clear_color (context_after ctx (takeWhile (\<lambda>c. \<not> is_clear c) (emitted Draw p)))
       = (0, 0, 0, 1)
   \<and> clear_pixel (context_after ctx (takeWhile (\<lambda>c. \<not> is_clear c) (emitted Draw p)))
        (r, g, b, a) = (0, 0, 0, a)"
  by (simp add: emitted_Draw clear_pixel_def clamp01_def)

text \<open>
  From a context with a white clear colour and all channels writable, a pixel with
  alpha 1/4 keeps that alpha through the clear of \<open>Draw()\<close>.
\<close>

theorem C10_mask_before_clear_witness:
  "clear_pixel
     (context_after \<lparr>clear_color = (1, 1, 1, 1), color_mask = (True, True, True, True)\<rparr>
        (takeWhile (\<lambda>c. \<not> is_clear c)
           (emitted Draw (Program_ctor \<lparr>program_handle = 3\<rparr> []))))
     (1/2, 1/2, 1/2, 1/4) = (0, 0, 0, 1/4)"
  using C10_mask_before_clear [of "Program_ctor \<lparr>program_handle = 3\<rparr> []"
          "\<lparr>clear_color = (1, 1, 1, 1), color_mask = (True, True, True, True)\<rparr>"
          "1/2" "1/2" "1/2" "1/4"]
  by simp

subsection \<open>The debug callback\<close>

text \<open>
  C7, as the code has it. \<open>Load\<close> switches every message on
  (\<open>glDebugMessageControl\<close> with \<open>GL_DONT_CARE\<close> for source, type and severity, no id
  list, enabled) and then registers the callback. For every message that reaches the
  callback, whatever its source, type, id, severity, length and user parameter, the
  callback appends to standard output the message text followed by a newline, with
  no tag and nothing else, and returns.
\<close>

theorem C7_callback_writes_line:
  "ETB_GL_ERROR_CALLBACK source ty msg_id severity len message userParam cout
     = cout @ c_str message @ [CHR 0x0A]
   \<and> ETB_GL_ERROR_CALLBACK source ty msg_id severity len message userParam cout
     = ETB_GL_ERROR_CALLBACK source' ty' msg_id' severity' len' message userParam' cout
   \<and> in_order
       [GlDebugMessageControl GL_DONT_CARE GL_DONT_CARE GL_DONT_CARE 0 None True,
        GlDebugMessageCallback FN_ETB_GL_ERROR_CALLBACK None]
       (emitted Load p)"
  by (simp add: ETB_GL_ERROR_CALLBACK_def endl_def emitted_Load)

theorem C7_callback_writes_line_witness:
  "ETB_GL_ERROR_CALLBACK 0x8246 0x824C 1 0x9146 5 ''error'' 0 ''log: '' = ''log: error\<newline>''"
  using C7_callback_writes_line [of "0x8246" "0x824C" 1 "0x9146" 5 "''error''" 0 "''log: ''"]
  by (simp add: c_str_def)

text \<open>
  What is written is not exactly the message text: for a high-severity error message
  of the API with the text "error", on an empty output, the output is not "error"
  (it is "error" and a newline).
\<close>

theorem C7_exact_text_counterexample:
  "ETB_GL_ERROR_CALLBACK 0x8246 0x824C 1 0x9146 5 ''error'' 0 [] \<noteq> ''error''"
  by (simp add: ETB_GL_ERROR_CALLBACK_def c_str_def endl_def)

end
